theory Spec2Isabelle
  imports Main "HOL-Library.Sublist" "HOL-Library.AList"
begin

section \<open>crossenv: the cross-compiling environment builder\<close>

text \<open>
  A shallow embedding of \<^verbatim>\<open>src/crossenv/__init__.py\<close> (class
  \<^verbatim>\<open>CrossEnvBuilder\<close>). Python exceptions are values of the type
  \<open>error\<close>, carried on the left of a sum; every \<^verbatim>\<open>raise\<close> of the source
  is a branch that returns \<open>Inl\<close>. What the program observes of its surroundings
  (the file system it reads, the standard library's configuration values, the
  subprocesses it spawns) is a record of functions, \<open>world\<close>; the directory tree
  it changes is an explicit state.
\<close>

subsection \<open>Exceptions\<close>

datatype error =
    FileNotFoundError string
  | ValueError string
  | IOError string
  | OSError string
  | NameError string
  | RuntimeError string
  | AttributeError string
  | AssertionError string
  | KeyError string
  | CalledProcessError nat

text \<open>The spec's names for the errors the builder raises, as the source words them.\<close>

definition VersionMismatch :: "string \<Rightarrow> string \<Rightarrow> error" where
  "VersionMismatch host_version build_version =
     ValueError (''Version mismatch: host='' @ host_version @ '', build='' @ build_version)"

definition ConfigDataNotFound :: error where
  "ConfigDataNotFound = FileNotFoundError ''No _sysconfigdata*.py found in host lib''"

definition AmbiguousInstallation :: error where
  "AmbiguousInstallation = ValueError ''Malformed Python installation.''"

definition CompilerUnavailable :: error where
  "CompilerUnavailable =
     RuntimeError ''Cannot run cross-compiler! Extension modules won't build!''"

definition MalformedInstallation :: error where
  "MalformedInstallation = FileNotFoundError ''Cannot find Makefile''"

subsection \<open>Strings and paths\<close>

text \<open>
  Python's \<^verbatim>\<open>str\<close> methods and the \<^verbatim>\<open>os.path\<close> functions the source
  calls, on strings as lists of characters. White space is what
  \<^verbatim>\<open>str.isspace\<close> accepts among the first 256 code points.
\<close>

definition is_space :: "char \<Rightarrow> bool" where
  "is_space c = (c \<in> set [CHR '' '', CHR 0x09, CHR 0x0A, CHR 0x0B, CHR 0x0C, CHR 0x0D,
                           CHR 0x1C, CHR 0x1D, CHR 0x1E, CHR 0x1F, CHR 0x85, CHR 0xA0])"

text \<open>\<^verbatim>\<open>s.strip()\<close>.\<close>

definition strip :: "string \<Rightarrow> string" where
  "strip s = rev (dropWhile is_space (rev (dropWhile is_space s)))"

text \<open>
  \<^verbatim>\<open>s.split()\<close>: the maximal runs of characters that are not white space, in
  order. \<open>cur\<close> holds the run being read, reversed.
\<close>

fun split_ws_from :: "string \<Rightarrow> string \<Rightarrow> string list" where
  "split_ws_from cur [] = (if cur = [] then [] else [rev cur])"
| "split_ws_from cur (c # cs) =
     (if is_space c then (if cur = [] then split_ws_from [] cs else rev cur # split_ws_from [] cs)
      else split_ws_from (c # cur) cs)"

definition split_ws :: "string \<Rightarrow> string list" where
  "split_ws s = split_ws_from [] s"

text \<open>\<^verbatim>\<open>s.split(sep)\<close> for a one-character separator: one more part than separators.\<close>

fun split_on :: "char \<Rightarrow> string \<Rightarrow> string list" where
  "split_on sep [] = [[]]"
| "split_on sep (c # cs) =
     (if c = sep then [] # split_on sep cs
      else (case split_on sep cs of [] \<Rightarrow> [[c]] | p # ps \<Rightarrow> (c # p) # ps))"

text \<open>\<^verbatim>\<open>s.split(sep, 1)[-1]\<close>: what follows the first separator, or all of \<open>s\<close>.\<close>

definition after_first :: "char \<Rightarrow> string \<Rightarrow> string" where
  "after_first sep s = (if sep \<in> set s then tl (dropWhile (\<lambda>c. c \<noteq> sep) s) else s)"

text \<open>
  \<^verbatim>\<open>s.title()\<close> on the ASCII letters: a letter that follows a letter is
  lowered, any other letter is raised; other characters are kept.
\<close>

definition is_lower :: "char \<Rightarrow> bool" where
  "is_lower c = (97 \<le> (of_char c :: nat) \<and> (of_char c :: nat) \<le> 122)"

definition is_upper :: "char \<Rightarrow> bool" where
  "is_upper c = (65 \<le> (of_char c :: nat) \<and> (of_char c :: nat) \<le> 90)"

definition to_upper :: "char \<Rightarrow> char" where
  "to_upper c = (if is_lower c then char_of ((of_char c :: nat) - 32) else c)"

definition to_lower :: "char \<Rightarrow> char" where
  "to_lower c = (if is_upper c then char_of ((of_char c :: nat) + 32) else c)"

fun title_from :: "bool \<Rightarrow> string \<Rightarrow> string" where
  "title_from prev [] = []"
| "title_from prev (c # cs) =
     (if is_lower c then (if prev then c else to_upper c) # title_from True cs
      else if is_upper c then (if prev then to_lower c else c) # title_from True cs
      else c # title_from False cs)"

definition title :: "string \<Rightarrow> string" where
  "title s = title_from False s"

text \<open>\<^verbatim>\<open>os.path.join(a, b)\<close> of \<^verbatim>\<open>posixpath\<close>.\<close>

definition join :: "string \<Rightarrow> string \<Rightarrow> string" where
  "join a b =
     (if b \<noteq> [] \<and> hd b = CHR ''/'' then b
      else if a = [] \<or> last a = CHR ''/'' then a @ b
      else a @ ''/'' @ b)"

text \<open>
  \<^verbatim>\<open>os.path.dirname\<close> and \<^verbatim>\<open>os.path.basename\<close>: the path is cut after its
  last slash; the head loses its trailing slashes unless it is slashes only.
\<close>

definition basename :: "string \<Rightarrow> string" where
  "basename p = rev (takeWhile (\<lambda>c. c \<noteq> CHR ''/'') (rev p))"

definition dirname :: "string \<Rightarrow> string" where
  "dirname p =
     (let head = rev (dropWhile (\<lambda>c. c \<noteq> CHR ''/'') (rev p))
      in if head \<noteq> [] \<and> \<not> list_all (\<lambda>c. c = CHR ''/'') head
         then rev (dropWhile (\<lambda>c. c = CHR ''/'') (rev head))
         else head)"

text \<open>
  The first component of \<^verbatim>\<open>os.path.splitext(p)\<close>: \<open>p\<close> without its
  extension, the extension starting at the last dot of the last path component when a
  character other than a dot stands before it in that component.
\<close>

definition splitext_root :: "string \<Rightarrow> string" where
  "splitext_root p =
     (let r = rev p;
          ext = takeWhile (\<lambda>c. c \<noteq> CHR ''.'') r;
          rest = dropWhile (\<lambda>c. c \<noteq> CHR ''.'') r
      in if rest = [] \<or> CHR ''/'' \<in> set ext then p
         else if list_all (\<lambda>c. c = CHR ''.'') (takeWhile (\<lambda>c. c \<noteq> CHR ''/'') (tl rest)) then p
         else rev (tl rest))"

subsection \<open>What the builder observes\<close>

text \<open>
  The surroundings the constructor reads, one field per library call of the source:
  \<^verbatim>\<open>os.path.abspath\<close>, \<^verbatim>\<open>exists\<close>, \<^verbatim>\<open>isfile\<close>,
  \<^verbatim>\<open>isdir\<close>, \<^verbatim>\<open>sysconfig._is_python_source_dir\<close>, reading a file
  whole or line by line, \<^verbatim>\<open>glob.glob\<close>, loading the configuration-data module
  (the result is its \<^verbatim>\<open>build_time_vars\<close>), the running interpreter's
  \<^verbatim>\<open>VERSION\<close> and \<^verbatim>\<open>py_version_short\<close> configuration variables,
  \<^verbatim>\<open>sys.platform\<close>, \<^verbatim>\<open>subprocess.check_output\<close> (a nonzero exit is
  \<open>CalledProcessError\<close>, a command that cannot be spawned an operating-system error),
  the file of the standard library's \<^verbatim>\<open>os\<close> module (\<^verbatim>\<open>os.__file__\<close>),
  \<^verbatim>\<open>ConfigParser\<close>'s rendering of one section (it refuses some values), and
  the file name of the running interpreter, which the environment primitive records as
  \<^verbatim>\<open>context.python_exe\<close>.
\<close>

record world =
  abspath :: "string \<Rightarrow> string"
  path_exists :: "string \<Rightarrow> bool"
  path_isfile :: "string \<Rightarrow> bool"
  path_isdir :: "string \<Rightarrow> bool"
  is_python_source_dir :: "string \<Rightarrow> bool"
  read_file :: "string \<Rightarrow> error + string"
  read_lines :: "string \<Rightarrow> error + string list"
  glob :: "string \<Rightarrow> string list"
  exec_module :: "string \<Rightarrow> string \<Rightarrow> error + (string \<rightharpoonup> string)"
  config_VERSION :: string
  py_version_short :: string
  sys_platform :: string
  check_output :: "string list \<Rightarrow> error + string"
  os_file :: string
  write_ini :: "string \<Rightarrow> (string \<times> string) list \<Rightarrow> error + string"
  python_exe :: string

text \<open>
  The names bound at module level (the imports of lines 1-15 and the module's own
  definitions) and the built-in exception names the source mentions. A name that is
  neither raises \<open>NameError\<close> when it is evaluated.
\<close>

definition module_globals :: "string list" where
  "module_globals =
     [''venv'', ''os'', ''sysconfig'', ''glob'', ''sys'', ''shutil'', ''dedent'', ''subprocess'',
      ''logging'', ''importlib'', ''types'', ''ConfigParser'', ''F'', ''utils'', ''logger'',
      ''CrossEnvBuilder'', ''parse_env_vars'', ''main'']"

definition builtin_names :: "string list" where
  "builtin_names =
     [''FileNotFoundError'', ''ValueError'', ''IOError'', ''RuntimeError'', ''IndexError'',
      ''Exception'']"

definition name_bound :: "string \<Rightarrow> bool" where
  "name_bound n = (n \<in> set module_globals \<or> n \<in> set builtin_names)"

text \<open>\<^verbatim>\<open>IOError\<close> is \<^verbatim>\<open>OSError\<close>: it catches the operating system's errors.\<close>

fun is_os_error :: "error \<Rightarrow> bool" where
  "is_os_error (FileNotFoundError _) = True"
| "is_os_error (IOError _) = True"
| "is_os_error (OSError _) = True"
| "is_os_error _ = False"

subsection \<open>Host interpreter locator (\<^verbatim>\<open>find_host_python\<close>, lines 103-204)\<close>

record host_descriptor =
  host_project_base :: string
  host_home :: string
  host_makefile :: string
  host_sysconfigdata_file :: string
  host_sysconfigdata_name :: string
  host_cc :: string
  host_version :: string
  host_platform :: string

text \<open>What the two discovery branches leave behind (lines 118-167).\<close>

record discovery =
  d_project_base :: string
  d_home :: string
  d_makefile :: string
  d_sysconfigdata :: "string list"

definition sysconfigdata_pattern :: string where
  "sysconfigdata_pattern = ''_sysconfigdata*.py''"

text \<open>
  Lines 120-134, the source-checkout branch. Its handler formats the message with the
  name \<^verbatim>\<open>s\<close>, which is bound nowhere, so an unreadable
  \<^verbatim>\<open>pybuilddir.txt\<close> ends in \<open>NameError\<close>.
\<close>

definition discover_source_dir :: "world \<Rightarrow> string \<Rightarrow> error + discovery" where
  "discover_source_dir w base =
     (case read_file w (join base ''pybuilddir.txt'') of
        Inl e \<Rightarrow> (if is_os_error e then Inl (NameError ''s'') else Inl e)
      | Inr text \<Rightarrow>
          Inr \<lparr> d_project_base = base, d_home = base, d_makefile = join base ''Makefile'',
                d_sysconfigdata = glob w (join (join base (strip text)) sysconfigdata_pattern) \<rparr>)"

text \<open>
  Lines 136-167, the installed-tree branch: the library directory of the running
  interpreter's version, then its subdirectories; when both are empty, any other
  version's library directory turns the failure into a version mismatch named after
  that directory.
\<close>

definition discover_installed :: "world \<Rightarrow> string \<Rightarrow> error + discovery" where
  "discover_installed w base =
     (let home = dirname base;
          libdir = join (join home ''lib'') (''python'' @ py_version_short w);
          first = glob w (join libdir sysconfigdata_pattern);
          second = (if first = [] then glob w (join (join libdir ''*'') sysconfigdata_pattern)
                    else first);
          anylib = join (join home ''lib'') ''python*'';
          found = glob w (join anylib sysconfigdata_pattern)
                  @ glob w (join (join anylib ''*'') sysconfigdata_pattern);
          makefile = glob w (join (join libdir ''*'') ''Makefile'')
      in if second = [] \<and> found \<noteq> []
         then Inl (VersionMismatch (drop 6 (basename (dirname (hd found)))) (config_VERSION w))
         else Inr \<lparr> d_project_base = base, d_home = home,
                    d_makefile = (if makefile = [] then [] else hd makefile),
                    d_sysconfigdata = second \<rparr>)"

text \<open>Lines 110-167: the path checks, then one of the two branches.\<close>

definition discover :: "world \<Rightarrow> string \<Rightarrow> error + discovery" where
  "discover w host_python =
     (let host = abspath w host_python
      in if \<not> path_exists w host then Inl (FileNotFoundError (host @ '' does not exist''))
         else if \<not> path_isfile w host
         then Inl (ValueError (''Expected a path to a Python executable. Got '' @ host))
         else if is_python_source_dir w (dirname host) then discover_source_dir w (dirname host)
         else discover_installed w (dirname host))"

text \<open>Lines 169-172: exactly one candidate is accepted.\<close>

definition single_sysconfigdata :: "string list \<Rightarrow> error + string" where
  "single_sysconfigdata sysconfigdata =
     (case sysconfigdata of
        [] \<Rightarrow> Inl ConfigDataNotFound
      | [f] \<Rightarrow> Inr f
      | _ \<Rightarrow> Inl AmbiguousInstallation)"

text \<open>
  Lines 193-199: the first line of the makefile that, stripped, starts with the
  platform key decides the platform; \<open>None\<close> when no line does.
\<close>

fun makefile_platform :: "string list \<Rightarrow> string option" where
  "makefile_platform [] = None"
| "makefile_platform (line # rest) =
     (if prefix ''_PYTHON_HOST_PLATFORM='' (strip line)
      then Some (after_first CHR ''='' (strip line))
      else makefile_platform rest)"

text \<open>\<^verbatim>\<open>build_time_vars[key]\<close>.\<close>

definition lookup_var :: "(string \<rightharpoonup> string) \<Rightarrow> string \<Rightarrow> error + string" where
  "lookup_var vars key = (case vars key of None \<Rightarrow> Inl (KeyError key) | Some v \<Rightarrow> Inr v)"

text \<open>
  Lines 174-204, for the accepted candidate: load it, read the compiler and the
  version, require the makefile, scan it for the platform, and compare the versions
  last.
\<close>

definition load_host :: "world \<Rightarrow> discovery \<Rightarrow> string \<Rightarrow> error + host_descriptor" where
  "load_host w d file =
     (let name = splitext_root (basename file)
      in case exec_module w name file of
           Inl e \<Rightarrow> Inl e
         | Inr vars \<Rightarrow>
            (case lookup_var vars ''CC'' of
               Inl e \<Rightarrow> Inl e
             | Inr cc \<Rightarrow>
                (case lookup_var vars ''VERSION'' of
                   Inl e \<Rightarrow> Inl e
                 | Inr version \<Rightarrow>
                    if \<not> path_exists w (d_makefile d) then Inl MalformedInstallation
                    else (case read_lines w (d_makefile d) of
                            Inl e \<Rightarrow> Inl e
                          | Inr lines \<Rightarrow>
                              if version \<noteq> config_VERSION w
                              then Inl (VersionMismatch version (config_VERSION w))
                              else Inr \<lparr> host_project_base = d_project_base d,
                                         host_home = d_home d,
                                         host_makefile = d_makefile d,
                                         host_sysconfigdata_file = file,
                                         host_sysconfigdata_name = name,
                                         host_cc = cc,
                                         host_version = version,
                                         host_platform =
                                           (case makefile_platform lines of
                                              None \<Rightarrow> sys_platform w
                                            | Some p \<Rightarrow> p) \<rparr>))))"

definition find_host_python :: "world \<Rightarrow> string \<Rightarrow> error + host_descriptor" where
  "find_host_python w host_python =
     (case discover w host_python of
        Inl e \<Rightarrow> Inl e
      | Inr d \<Rightarrow>
         (case single_sysconfigdata (d_sysconfigdata d) of
            Inl e \<Rightarrow> Inl e
          | Inr file \<Rightarrow> load_host w d file))"

subsection \<open>Compiler probe (\<^verbatim>\<open>find_compiler_info\<close>, lines 206-228)\<close>

text \<open>
  Lines 212-217. The handler is written \<^verbatim>\<open>except CalledProcessError\<close>; the
  clause's name is looked up when an exception reaches it, and only if it is bound can
  the handler return \<^verbatim>\<open>None\<close> for a nonzero exit.
\<close>

definition run_compiler :: "world \<Rightarrow> string \<Rightarrow> string \<Rightarrow> error + string option" where
  "run_compiler w cc arg =
     (case check_output w [cc, arg] of
        Inr out \<Rightarrow> Inr (Some out)
      | Inl e \<Rightarrow>
          if name_bound ''CalledProcessError''
          then (case e of CalledProcessError _ \<Rightarrow> Inr None | _ \<Rightarrow> Inl e)
          else Inl (NameError ''CalledProcessError''))"

text \<open>
  Lines 219-228: the version query, then the sysroot query, whose output is stripped;
  \<^verbatim>\<open>None.strip()\<close> is an \<open>AttributeError\<close>.
\<close>

definition find_compiler_info :: "world \<Rightarrow> string \<Rightarrow> error + string option" where
  "find_compiler_info w cc =
     (case run_compiler w cc ''--version'' of
        Inl e \<Rightarrow> Inl e
      | Inr None \<Rightarrow> Inl CompilerUnavailable
      | Inr (Some _) \<Rightarrow>
         (case run_compiler w cc ''-print-sysroot'' of
            Inl e \<Rightarrow> Inl e
          | Inr None \<Rightarrow> Inl (AttributeError ''strip'')
          | Inr (Some out) \<Rightarrow> Inr (Some (strip out))))"

subsection \<open>Clear scope (\<^verbatim>\<open>__init__\<close>, lines 86-94)\<close>



text \<open>\<^verbatim>\<open>clear in (...)\<close>: a false value is in no tuple of strings.\<close>

definition py_in :: "string option \<Rightarrow> string list \<Rightarrow> bool" where
  "py_in v xs = (case v of None \<Rightarrow> False | Some s \<Rightarrow> s \<in> set xs)"

text \<open>\<^verbatim>\<open>if cross_prefix:\<close> is true of a non-empty string only.\<close>

definition truthy :: "string option \<Rightarrow> bool" where
  "truthy p = (case p of None \<Rightarrow> False | Some s \<Rightarrow> s \<noteq> [])"

definition clear_build_flag :: "string option \<Rightarrow> bool" where
  "clear_build_flag clear = py_in clear [''default'', ''build'', ''both'']"

definition clear_cross_flag :: "string option \<Rightarrow> string option \<Rightarrow> bool" where
  "clear_cross_flag clear cross_prefix =
     (if truthy cross_prefix then py_in clear [''cross'', ''both'']
      else py_in clear [''default'', ''cross'', ''both''])"

subsection \<open>Construction (\<^verbatim>\<open>__init__\<close>, lines 74-101)\<close>

record builder =
  host :: host_descriptor
  host_sysroot :: "string option"
  build_system_site_packages :: bool
  extra_env_vars :: "(string \<times> string \<times> string) list"
  clear_build :: bool
  with_cross_pip :: bool
  with_build_pip :: bool
  cross_prefix :: "string option"
  clear_cross :: bool

text \<open>The keyword arguments of the constructor.\<close>

record builder_args =
  arg_host_python :: string
  arg_extra_env_vars :: "(string \<times> string \<times> string) list"
  arg_build_system_site_packages :: bool
  arg_clear :: "string option"
  arg_cross_prefix :: "string option"
  arg_with_cross_pip :: bool
  arg_with_build_pip :: bool

definition init :: "world \<Rightarrow> builder_args \<Rightarrow> error + builder" where
  "init w a =
     (case find_host_python w (arg_host_python a) of
        Inl e \<Rightarrow> Inl e
      | Inr h \<Rightarrow>
         (case find_compiler_info w (host_cc h) of
            Inl e \<Rightarrow> Inl e
          | Inr sysroot \<Rightarrow>
              Inr \<lparr> host = h,
                    host_sysroot = sysroot,
                    build_system_site_packages = arg_build_system_site_packages a,
                    extra_env_vars = arg_extra_env_vars a,
                    clear_build = clear_build_flag (arg_clear a),
                    with_cross_pip = arg_with_cross_pip a,
                    with_build_pip = arg_with_build_pip a,
                    cross_prefix =
                      (if truthy (arg_cross_prefix a)
                       then map_option (abspath w) (arg_cross_prefix a) else None),
                    clear_cross = clear_cross_flag (arg_clear a) (arg_cross_prefix a) \<rparr>))"

subsection \<open>The environment directory (\<^verbatim>\<open>ensure_directories\<close>, lines 244-270)\<close>

text \<open>
  The tree below one environment root: a file with its text, or a directory with its
  named entries. The root itself is \<open>None\<close> while it does not exist.
\<close>

datatype node = File string | Dir "(string \<times> node) list"

type_synonym entries = "(string \<times> node) list"

text \<open>
  Modelled from the spec: \<^verbatim>\<open>utils.remove_path\<close> is not among the sources. It
  deletes the named entry of the root, a file or a whole subtree.
\<close>

definition remove_path :: "string \<Rightarrow> entries \<Rightarrow> entries" where
  "remove_path sub es = AList.delete sub es"

text \<open>
  Lines 261-265: every name \<^verbatim>\<open>os.listdir\<close> returns is removed, except
  \<^verbatim>\<open>cross\<close> and \<^verbatim>\<open>build\<close>, which the loop skips.
\<close>

definition clear_stale :: "entries \<Rightarrow> entries" where
  "clear_stale es =
     fold (\<lambda>sub acc. if sub \<in> set [''cross'', ''build''] then acc else remove_path sub acc)
          (map fst es) es"

text \<open>
  The standard library's \<^verbatim>\<open>create_if_needed\<close> for a directory given by its
  components below the root: missing directories are made along the way, an existing
  directory is kept as it is, and a file in the way is an error (of the operating
  system when it is an ancestor, a \<open>ValueError\<close> when it is the directory itself).
  The entries as changed so far are returned with the error.
\<close>

fun create_if_needed :: "string list \<Rightarrow> entries \<Rightarrow> error option \<times> entries" where
  "create_if_needed [] es = (None, es)"
| "create_if_needed (n # ns) es =
     (case map_of es n of
        None \<Rightarrow> (None, es @ [(n, Dir (snd (create_if_needed ns [])))])
      | Some (Dir sub) \<Rightarrow>
          (case create_if_needed ns sub of
             (e, sub') \<Rightarrow> (e, AList.update n (Dir sub') es))
      | Some (File _) \<Rightarrow>
          (Some (if ns = [] then ValueError (''Unable to create directory '' @ n)
                 else OSError (''Not a directory: '' @ n)), es))"

text \<open>
  The directories the external primitive \<^verbatim>\<open>venv.EnvBuilder.ensure_directories\<close>
  makes when it is built with \<^verbatim>\<open>clear=False\<close>, as the constructor builds it
  (lines 96-101): the include directory, the site-packages directory of the running
  version, and the bin directory.
\<close>

definition venv_directories :: "world \<Rightarrow> string list list" where
  "venv_directories w =
     [[''include''], [''lib'', ''python'' @ py_version_short w, ''site-packages''], [''bin'']]"

fun create_all_if_needed :: "string list list \<Rightarrow> entries \<Rightarrow> error option \<times> entries" where
  "create_all_if_needed [] es = (None, es)"
| "create_all_if_needed (d # ds) es =
     (case create_if_needed d es of
        (Some e, es') \<Rightarrow> (Some e, es')
      | (None, es') \<Rightarrow> create_all_if_needed ds es')"

text \<open>
  Modelled from the spec: \<^verbatim>\<open>utils.mkdir_if_needed\<close> is not among the sources.
  It makes the directory unless the name is taken.
\<close>

definition mkdir_if_needed :: "string \<Rightarrow> entries \<Rightarrow> entries" where
  "mkdir_if_needed n es = (case map_of es n of None \<Rightarrow> es @ [(n, Dir [])] | Some _ \<Rightarrow> es)"

text \<open>
  Lines 260-270. With a clear flag set and the root in place, the stale entries go
  first (listing a root that is a file fails); then the primitive makes its
  directories, and the staging directory \<^verbatim>\<open>lib\<close> is made if needed. The result
  is the error, if any, and the root as it is left.
\<close>

definition ensure_directories ::
  "world \<Rightarrow> bool \<Rightarrow> bool \<Rightarrow> node option \<Rightarrow> error option \<times> node option" where
  "ensure_directories w clear_cross_set clear_build_set root =
     (case root of
        Some (File text) \<Rightarrow>
          (if clear_cross_set \<or> clear_build_set then (Some (OSError ''Not a directory''), root)
           else (Some (ValueError ''Unable to create directory''), root))
      | _ \<Rightarrow>
          (let es = (case root of Some (Dir es) \<Rightarrow>
                        (if clear_cross_set \<or> clear_build_set then clear_stale es else es)
                     | _ \<Rightarrow> [])
           in case create_all_if_needed (venv_directories w) es of
                (Some e, es') \<Rightarrow> (Some e, Some (Dir es'))
              | (None, es') \<Rightarrow> (None, Some (Dir (mkdir_if_needed ''lib'' es')))))"

subsection \<open>Configuration writer (\<^verbatim>\<open>create_configuration\<close>, lines 272-291)\<close>

text \<open>
  Line 280 unpacks the platform string, split at every dash, into exactly two names;
  any other number of parts is a \<open>ValueError\<close>. The section is then rendered and
  published as \<^verbatim>\<open>crossenv.cfg\<close> in the root.
  Modelled from the spec: \<^verbatim>\<open>utils.overwrite_file\<close> is not among the sources; it
  replaces the file by its new text once the text is complete, and cannot replace a
  directory.
\<close>

definition uname_section :: "string \<Rightarrow> string \<Rightarrow> (string \<times> string) list" where
  "uname_section sysname machine =
     [(''sysname'', title sysname), (''nodename'', ''build''), (''release'', []),
      (''version'', []), (''machine'', machine)]"

definition overwrite_file :: "string \<Rightarrow> string \<Rightarrow> entries \<Rightarrow> error option \<times> entries" where
  "overwrite_file name text es =
     (case map_of es name of
        Some (Dir _) \<Rightarrow> (Some (OSError (''Is a directory: '' @ name)), es)
      | _ \<Rightarrow> (None, AList.update name (File text) es))"

definition create_configuration ::
  "world \<Rightarrow> string \<Rightarrow> entries \<Rightarrow> error option \<times> entries" where
  "create_configuration w platform es =
     (case split_on CHR ''-'' platform of
        [sysname, machine] \<Rightarrow>
          (case write_ini w ''uname'' (uname_section sysname machine) of
             Inl e \<Rightarrow> (Some e, es)
           | Inr text \<Rightarrow> overwrite_file ''crossenv.cfg'' text es)
      | [_] \<Rightarrow> (Some (ValueError ''not enough values to unpack (expected 2, got 1)''), es)
      | _ \<Rightarrow> (Some (ValueError ''too many values to unpack (expected 2)''), es))"

subsection \<open>Creation (\<^verbatim>\<open>create\<close>, lines 230-242, and the driver, lines 571-579)\<close>

text \<open>
  \<^verbatim>\<open>create\<close> prepares the directories, writes the configuration, and then
  assembles the two environments. The three assembling steps populate the tree through
  the external environment primitive; their effect on the tree is the parameter
  \<open>assemble\<close>.
\<close>

definition create ::
  "world \<Rightarrow> builder \<Rightarrow> (node option \<Rightarrow> error option \<times> node option) \<Rightarrow> node option
   \<Rightarrow> error option \<times> node option" where
  "create w b assemble root =
     (case ensure_directories w (clear_cross b) (clear_build b) root of
        (Some e, root') \<Rightarrow> (Some e, root')
      | (None, Some (Dir es)) \<Rightarrow>
          (case create_configuration w (host_platform (host b)) es of
             (Some e, es') \<Rightarrow> (Some e, Some (Dir es'))
           | (None, es') \<Rightarrow> assemble (Some (Dir es')))
      | (None, root') \<Rightarrow> assemble root')"

text \<open>
  The environment roots by their absolute paths. The driver constructs the builder and
  then creates each environment in turn; the first exception ends the run.
\<close>

type_synonym forest = "string \<Rightarrow> node option"

fun create_each ::
  "world \<Rightarrow> builder \<Rightarrow> (node option \<Rightarrow> error option \<times> node option) \<Rightarrow> string list \<Rightarrow> forest
   \<Rightarrow> error option \<times> forest" where
  "create_each w b assemble [] forest = (None, forest)"
| "create_each w b assemble (env_dir # rest) forest =
     (case create w b assemble (forest (abspath w env_dir)) of
        (Some e, root') \<Rightarrow> (Some e, forest (abspath w env_dir := root'))
      | (None, root') \<Rightarrow>
          create_each w b assemble rest (forest (abspath w env_dir := root')))"

definition construct_and_create ::
  "world \<Rightarrow> builder_args \<Rightarrow> (node option \<Rightarrow> error option \<times> node option) \<Rightarrow> string list
   \<Rightarrow> forest \<Rightarrow> error option \<times> forest" where
  "construct_and_create w a assemble env_dirs forest =
     (case init w a of
        Inl e \<Rightarrow> (Some e, forest)
      | Inr b \<Rightarrow> create_each w b assemble env_dirs forest)"

subsection \<open>Cross environment (\<^verbatim>\<open>make_cross_python\<close>, lines 321-438)\<close>

text \<open>
  The paths the creation steps record in the context: lines 237 and 268, lines 298-307
  for the build environment, lines 327-343 for the cross environment.
\<close>

record build_context =
  env_dir :: string
  lib_path :: string
  bin_path :: string
  build_env_dir :: string
  build_bin_path :: string
  build_env_exe :: string
  cross_env_dir :: string
  cross_bin_path :: string
  cross_env_exe :: string
  cross_cfg_path :: string
  cross_activate :: string


text \<open>
  Lines 350-356: every line of \<^verbatim>\<open>pyvenv.cfg\<close> is written back, a line whose
  first two words are \<^verbatim>\<open>home\<close> and \<^verbatim>\<open>=\<close> being replaced first. A line
  is kept with its line end.
\<close>

definition rewrite_home_line :: "string \<Rightarrow> string \<Rightarrow> string" where
  "rewrite_home_line project_base line =
     (if take 2 (split_ws line) = [''home'', ''='']
      then ''home = '' @ project_base @ ''\<newline>''
      else line)"

definition rewrite_cfg :: "string \<Rightarrow> string list \<Rightarrow> string list" where
  "rewrite_cfg project_base lines = map (rewrite_home_line project_base) lines"




text \<open>
  Lines 405-412: one line for each assignment, in the order of the list; an operator
  other than \<^verbatim>\<open>=\<close> and \<^verbatim>\<open>?=\<close> fails the assertion.
\<close>

definition export_line :: "string \<Rightarrow> string \<Rightarrow> string" where
  "export_line name val = ''export '' @ name @ ''='' @ val"

definition guarded_export_line :: "string \<Rightarrow> string \<Rightarrow> string" where
  \<open>guarded_export_line name val =
     ''[ -z "${'' @ name @ ''}" ] && export '' @ name @ ''='' @ val\<close>

fun env_lines :: "(string \<times> string \<times> string) list \<Rightarrow> error + string list" where
  "env_lines [] = Inr []"
| "env_lines ((name, assign, val) # rest) =
     (if assign = ''='' then
        (case env_lines rest of Inl e \<Rightarrow> Inl e | Inr ls \<Rightarrow> Inr (export_line name val # ls))
      else if assign = ''?='' then
        (case env_lines rest of
           Inl e \<Rightarrow> Inl e
         | Inr ls \<Rightarrow> Inr (guarded_export_line name val # ls))
      else Inl (AssertionError (''Bad assignment value '' @ assign)))"

text \<open>
  The operators the data model allows, and the line an assignment with one of them
  gets.
\<close>

definition valid_assignments :: "(string \<times> string \<times> string) list \<Rightarrow> bool" where
  "valid_assignments evs = list_all (\<lambda>(name, assign, val). assign = ''='' \<or> assign = ''?='') evs"




subsection \<open>What the shell does with the two kinds of assignment\<close>








subsection \<open>An installed host interpreter\<close>

text \<open>
  The installation of the spec's end-to-end scenarios, as a world: the host
  interpreter \<^verbatim>\<open>/opt/host/bin/python3.9\<close> of an installed tree, its
  configuration data with version \<^verbatim>\<open>3.9.7\<close>, a makefile naming the platform
  \<^verbatim>\<open>linux-arm\<close>, and a cross compiler that answers both queries. The version of
  the running interpreter is the parameter.
\<close>

definition sample_host :: string where
  "sample_host = ''/opt/host/bin/python3.9''"

definition sample_sysconfigdata :: string where
  "sample_sysconfigdata = ''/opt/host/lib/python3.9/_sysconfigdata__linux_arm.py''"

definition sample_makefile :: string where
  "sample_makefile = ''/opt/host/lib/python3.9/config-3.9-arm/Makefile''"

definition sample_cc :: string where
  "sample_cc = ''/usr/bin/arm-linux-gnueabi-gcc''"

definition sample_vars :: "string \<rightharpoonup> string" where
  "sample_vars = [''CC'' \<mapsto> sample_cc, ''VERSION'' \<mapsto> ''3.9.7'']"

definition sample_glob :: "string \<Rightarrow> string list" where
  "sample_glob pat =
     (if pat = ''/opt/host/lib/python3.9/_sysconfigdata*.py'' then [sample_sysconfigdata]
      else if pat = ''/opt/host/lib/python3.9/*/Makefile'' then [sample_makefile]
      else if pat = ''/opt/sysroot/usr/lib*'' then [''/opt/sysroot/usr/lib'']
      else [])"

definition sample_check_output :: "string list \<Rightarrow> error + string" where
  "sample_check_output cmd =
     (if cmd = [sample_cc, ''--version''] then Inr ''arm-linux-gnueabi-gcc 9.3.0\<newline>''
      else if cmd = [sample_cc, ''-print-sysroot''] then Inr ''/opt/sysroot\<newline>''
      else Inl (FileNotFoundError (hd cmd)))"

text \<open>One section as \<^verbatim>\<open>ConfigParser.write\<close> prints it.\<close>

definition render_ini :: "string \<Rightarrow> (string \<times> string) list \<Rightarrow> string" where
  "render_ini name items =
     ''['' @ name @ '']\<newline>''
     @ concat (map (\<lambda>(k, v). k @ '' = '' @ v @ ''\<newline>'') items) @ ''\<newline>''"

definition sample_world :: "string \<Rightarrow> world" where
  "sample_world build_version =
     \<lparr> abspath = (\<lambda>p. p),
       path_exists = (\<lambda>p. p = sample_host \<or> p = sample_makefile),
       path_isfile = (\<lambda>p. p = sample_host \<or> p = sample_makefile),
       path_isdir = (\<lambda>p. p = ''/opt/sysroot/usr/include''),
       is_python_source_dir = (\<lambda>p. False),
       read_file = (\<lambda>p. Inl (FileNotFoundError p)),
       read_lines = (\<lambda>p. if p = sample_makefile
                          then Inr [''# Generated\<newline>'',
                                    ''_PYTHON_HOST_PLATFORM=linux-arm\<newline>'']
                          else Inl (FileNotFoundError p)),
       glob = sample_glob,
       exec_module = (\<lambda>name file. if file = sample_sysconfigdata then Inr sample_vars
                                  else Inl (FileNotFoundError file)),
       config_VERSION = build_version,
       py_version_short = ''3.9'',
       sys_platform = ''linux'',
       check_output = sample_check_output,
       os_file = ''/usr/lib/python3.9/os.py'',
       write_ini = (\<lambda>name items. Inr (render_ini name items)),
       python_exe = ''python3.9'' \<rparr>"

definition sample_args :: builder_args where
  "sample_args =
     \<lparr> arg_host_python = sample_host,
       arg_extra_env_vars = [(''FOO'', ''='', ''bar''), (''BAZ'', ''?='', ''qux'')],
       arg_build_system_site_packages = False,
       arg_clear = None,
       arg_cross_prefix = None,
       arg_with_cross_pip = False,
       arg_with_build_pip = False \<rparr>"

text \<open>What the constructor makes of it, for a platform string.\<close>

definition sample_descriptor :: "string \<Rightarrow> host_descriptor" where
  "sample_descriptor platform =
     \<lparr> host_project_base = ''/opt/host/bin'',
       host_home = ''/opt/host'',
       host_makefile = sample_makefile,
       host_sysconfigdata_file = sample_sysconfigdata,
       host_sysconfigdata_name = ''_sysconfigdata__linux_arm'',
       host_cc = sample_cc,
       host_version = ''3.9.7'',
       host_platform = platform \<rparr>"

definition sample_builder :: "string \<Rightarrow> builder" where
  "sample_builder platform =
     \<lparr> host = sample_descriptor platform,
       host_sysroot = Some ''/opt/sysroot'',
       build_system_site_packages = False,
       extra_env_vars = [(''FOO'', ''='', ''bar''), (''BAZ'', ''?='', ''qux'')],
       clear_build = False,
       with_cross_pip = False,
       with_build_pip = False,
       cross_prefix = None,
       clear_cross = False \<rparr>"



definition no_makefile_world :: world where
  "no_makefile_world =
     (sample_world ''3.9'')
       \<lparr> glob := (\<lambda>pat. if pat = ''/opt/host/lib/python3.9/_sysconfigdata*.py''
                        then [sample_sysconfigdata] else []) \<rparr>"

definition failing_compiler_world :: "error \<Rightarrow> world" where
  "failing_compiler_world e = (sample_world ''3.9.7'') \<lparr> check_output := (\<lambda>cmd. Inl e) \<rparr>"

definition no_sysroot_world :: world where
  "no_sysroot_world =
     (sample_world ''3.9.7'')
       \<lparr> check_output := (\<lambda>cmd. if cmd = [sample_cc, ''--version''] then Inr ''clang 11\<newline>''
                                 else Inl (CalledProcessError 1)) \<rparr>"

definition no_platform_world :: world where
  "no_platform_world =
     (sample_world ''3.9.7'')
       \<lparr> read_lines := (\<lambda>p. if p = sample_makefile then Inr [''# Generated\<newline>'']
                              else Inl (FileNotFoundError p)) \<rparr>"


subsection \<open>Reading the tree\<close>



section \<open>Properties\<close>

subsection \<open>Clear scope\<close>


subsection \<open>Host interpreter locator\<close>




lemma load_host_version:
  assumes "exec_module w (splitext_root (basename file)) file = Inr vars"
      and "vars ''CC'' = Some cc" and "vars ''VERSION'' = Some version"
      and "path_exists w (d_makefile d)" and "read_lines w (d_makefile d) = Inr lines"
  shows "load_host w d file =
           (if version \<noteq> config_VERSION w
            then Inl (VersionMismatch version (config_VERSION w))
            else Inr \<lparr> host_project_base = d_project_base d, host_home = d_home d,
                       host_makefile = d_makefile d, host_sysconfigdata_file = file,
                       host_sysconfigdata_name = splitext_root (basename file),
                       host_cc = cc, host_version = version,
                       host_platform = (case makefile_platform lines of
                                          None \<Rightarrow> sys_platform w | Some p \<Rightarrow> p) \<rparr>)"
  using assms by (simp add: load_host_def lookup_var_def Let_def)

lemma construct_failure:
  "init w a = Inl e \<Longrightarrow> construct_and_create w a assemble env_dirs forest = (Some e, forest)"
  by (simp add: construct_and_create_def)

text \<open>
  Claim C1, as amended. When the version read from the one configuration-data file
  differs from the running interpreter's version, and the host's makefile exists and
  can be read, construction raises the version mismatch, whose message names the host
  version and then the build version; this is during construction, so the driver
  creates no environment and leaves every root as it was. When the two versions are
  equal the locator passes the check and returns the host's description.
\<close>

theorem version_mismatch_after_makefile:
  assumes "discover w (arg_host_python a) = Inr d"
      and "d_sysconfigdata d = [file]"
      and "exec_module w (splitext_root (basename file)) file = Inr vars"
      and "vars ''CC'' = Some cc" and "vars ''VERSION'' = Some version"
      and "path_exists w (d_makefile d)" and "read_lines w (d_makefile d) = Inr lines"
  shows "(version \<noteq> config_VERSION w \<longrightarrow>
            init w a = Inl (VersionMismatch version (config_VERSION w))
            \<and> construct_and_create w a assemble env_dirs forest
                = (Some (VersionMismatch version (config_VERSION w)), forest))
         \<and> (version = config_VERSION w \<longrightarrow>
              (\<exists>h. find_host_python w (arg_host_python a) = Inr h
                   \<and> host_version h = config_VERSION w))"
proof -
  have found: "find_host_python w (arg_host_python a) = load_host w d file"
    using assms(1,2) by (simp add: find_host_python_def single_sysconfigdata_def)
  note loaded = load_host_version [OF assms(3-7)]
  show ?thesis
  proof (cases "version = config_VERSION w")
    case True
    then show ?thesis using found loaded by simp
  next
    case False
    then have "init w a = Inl (VersionMismatch version (config_VERSION w))"
      using found loaded by (simp add: init_def)
    then show ?thesis using False construct_failure by simp
  qed
qed

theorem version_mismatch_after_makefile_witness:
  "init (sample_world ''3.10.0'') sample_args = Inl (VersionMismatch ''3.9.7'' ''3.10.0'')
   \<and> construct_and_create (sample_world ''3.10.0'') sample_args (\<lambda>root. (None, root))
        [''/srv/env''] (\<lambda>dir. None)
      = (Some (VersionMismatch ''3.9.7'' ''3.10.0''), (\<lambda>dir. None))
   \<and> (\<exists>h. find_host_python (sample_world ''3.9.7'') (arg_host_python sample_args) = Inr h
          \<and> host_version h = ''3.9.7'')"
proof -
  let ?d = "\<lparr> d_project_base = ''/opt/host/bin'', d_home = ''/opt/host'',
               d_makefile = sample_makefile, d_sysconfigdata = [sample_sysconfigdata] \<rparr>"
  let ?lines = "[''# Generated\<newline>'', ''_PYTHON_HOST_PLATFORM=linux-arm\<newline>'']"
  have h1: "discover (sample_world v) (arg_host_python sample_args) = Inr ?d" for v
    by code_simp
  have h2: "d_sysconfigdata ?d = [sample_sysconfigdata]" by simp
  have h3: "exec_module (sample_world v)
              (splitext_root (basename sample_sysconfigdata)) sample_sysconfigdata
            = Inr sample_vars" for v
    by (simp add: sample_world_def)
  have h4: "sample_vars ''CC'' = Some sample_cc" by (simp add: sample_vars_def)
  have h5: "sample_vars ''VERSION'' = Some ''3.9.7''" by (simp add: sample_vars_def)
  have h6: "path_exists (sample_world v) (d_makefile ?d)" for v by (simp add: sample_world_def)
  have h7: "read_lines (sample_world v) (d_makefile ?d) = Inr ?lines" for v
    by (simp add: sample_world_def)
  have v1: "config_VERSION (sample_world v) = v" for v by (simp add: sample_world_def)
  show ?thesis
    using version_mismatch_after_makefile [OF h1 h2 h3 h4 h5 h6 h7, of "''3.10.0''"
            "\<lambda>root. (None, root)" "[''/srv/env'']" "\<lambda>dir. None"]
          version_mismatch_after_makefile [OF h1 h2 h3 h4 h5 h6 h7, of "''3.9.7''"]
    by (simp add: v1)
qed

text \<open>
  The claim as first stated fails: the makefile is required before the versions are
  compared (lines 190-191), so for an installation without it the versions differ and
  construction ends in the makefile error instead.
\<close>

theorem version_mismatch_counterexample:
  "map_sum id (\<lambda>vars. vars ''VERSION'')
      (exec_module no_makefile_world (splitext_root (basename sample_sysconfigdata))
         sample_sysconfigdata) = Inr (Some ''3.9.7'')
   \<and> config_VERSION no_makefile_world = ''3.9''
   \<and> init no_makefile_world sample_args = Inl MalformedInstallation
   \<and> MalformedInstallation \<noteq> VersionMismatch ''3.9.7'' ''3.9''"
  by code_simp

subsection \<open>Environment directory\<close>




declare map_of_append [simp del]
























subsection \<open>Compiler probe\<close>

text \<open>
  Whatever the compiler does, the probe ends in one of two ways: the \<open>NameError\<close>
  of the handler when either query fails, or the stripped answer to the sysroot query.
\<close>

lemma run_compiler_outcomes:
  "run_compiler w cc arg =
     (case check_output w [cc, arg] of
        Inl e \<Rightarrow> Inl (NameError ''CalledProcessError'')
      | Inr out \<Rightarrow> Inr (Some out))"
  by (simp add: run_compiler_def name_bound_def module_globals_def builtin_names_def
           split: sum.splits)

lemma find_compiler_info_outcomes:
  "find_compiler_info w cc =
     (case check_output w [cc, ''--version''] of
        Inl e \<Rightarrow> Inl (NameError ''CalledProcessError'')
      | Inr version \<Rightarrow>
         (case check_output w [cc, ''-print-sysroot''] of
            Inl e \<Rightarrow> Inl (NameError ''CalledProcessError'')
          | Inr out \<Rightarrow> Inr (Some (strip out))))"
  by (simp add: find_compiler_info_def run_compiler_outcomes split: sum.splits)

text \<open>
  Claim C4, on the code. A version query that exits nonzero, and a compiler that is
  absent from disk, both end construction before any root is touched, but with a
  \<open>NameError\<close> for the handler's unbound name, not with the error for an
  unavailable compiler that lines 221-224 mean to raise.
\<close>

theorem compiler_failure_is_name_error:
  "find_compiler_info (failing_compiler_world (CalledProcessError 1)) sample_cc
     = Inl (NameError ''CalledProcessError'')
   \<and> find_compiler_info (failing_compiler_world (FileNotFoundError sample_cc)) sample_cc
     = Inl (NameError ''CalledProcessError'')
   \<and> init (failing_compiler_world (FileNotFoundError sample_cc)) sample_args
     = Inl (NameError ''CalledProcessError'')
   \<and> construct_and_create (failing_compiler_world (FileNotFoundError sample_cc)) sample_args
        (\<lambda>root. (None, root)) [''/srv/env''] (\<lambda>dir. None)
     = (Some (NameError ''CalledProcessError''), (\<lambda>dir. None))
   \<and> NameError ''CalledProcessError'' \<noteq> CompilerUnavailable"
proof -
  have nonzero: "find_compiler_info (failing_compiler_world (CalledProcessError 1)) sample_cc
                   = Inl (NameError ''CalledProcessError'')"
    by code_simp
  have absent: "find_compiler_info (failing_compiler_world (FileNotFoundError sample_cc)) sample_cc
                  = Inl (NameError ''CalledProcessError'')"
    by code_simp
  have constructed: "init (failing_compiler_world (FileNotFoundError sample_cc)) sample_args
                       = Inl (NameError ''CalledProcessError'')"
    by code_simp
  have other: "NameError ''CalledProcessError'' \<noteq> CompilerUnavailable"
    by (simp add: CompilerUnavailable_def)
  from nonzero absent constructed other show ?thesis
    by (simp add: construct_and_create_def)
qed

text \<open>
  Claim C5, on the code. With the version query answered, a sysroot query that exits
  nonzero ends construction with the same \<open>NameError\<close> instead of leaving the
  sysroot absent; a query that succeeds records its output, stripped.
\<close>

theorem sysroot_failure_is_name_error:
  "find_compiler_info no_sysroot_world sample_cc = Inl (NameError ''CalledProcessError'')
   \<and> init no_sysroot_world sample_args = Inl (NameError ''CalledProcessError'')
   \<and> find_compiler_info (sample_world ''3.9.7'') sample_cc = Inr (Some ''/opt/sysroot'')"
  by code_simp

subsection \<open>Configuration writer\<close>

lemma split_on_length: "length (split_on sep s) = Suc (count_list s sep)"
  by (induction s) (auto split: list.splits)

lemma create_configuration_fails:
  assumes "count_list platform CHR ''-'' \<noteq> 1"
  shows "\<exists>msg. create_configuration w platform es = (Some (ValueError msg), es)"
proof -
  have "length (split_on CHR ''-'' platform) \<noteq> 2"
    using assms by (simp add: split_on_length)
  then show ?thesis
    by (auto simp: create_configuration_def split: list.splits)
qed

lemma ensure_directories_root:
  "ensure_directories w cc cb root = (None, root') \<Longrightarrow> \<exists>es. root' = Some (Dir es)"
  by (auto simp: ensure_directories_def Let_def split: option.splits node.splits prod.splits if_splits)

lemma create_fails:
  assumes "count_list (host_platform (host b)) CHR ''-'' \<noteq> 1"
  shows "\<exists>e root'. create w b assemble root = (Some e, root')"
proof (cases "ensure_directories w (clear_cross b) (clear_build b) root")
  case (Pair e root')
  show ?thesis
  proof (cases e)
    case (Some err)
    with Pair show ?thesis by (simp add: create_def)
  next
    case None
    with Pair obtain es where root': "root' = Some (Dir es)"
      using ensure_directories_root by blast
    obtain msg where "create_configuration w (host_platform (host b)) es
                        = (Some (ValueError msg), es)"
      using create_configuration_fails [OF assms] by blast
    with Pair None root' show ?thesis by (simp add: create_def)
  qed
qed

lemma find_host_python_platform:
  assumes "find_host_python w host_python = Inr h"
      and "read_lines w (host_makefile h) = Inr lines"
  shows "host_platform h = (case makefile_platform lines of None \<Rightarrow> sys_platform w | Some p \<Rightarrow> p)"
  using assms
  by (auto simp: find_host_python_def load_host_def Let_def
           split: sum.splits if_splits)

text \<open>
  Claim C10. Configuration writing succeeds only for a platform string with exactly
  one dash, that is, two components; with any other number it fails with a
  \<open>ValueError\<close> and writes nothing, and so does every \<^verbatim>\<open>create\<close>.
  When the host's makefile names no platform the platform string is the running
  system's own.
\<close>

theorem platform_needs_two_components:
  "(fst (create_configuration w platform es) = None \<longrightarrow> count_list platform CHR ''-'' = 1)
   \<and> (count_list platform CHR ''-'' \<noteq> 1 \<longrightarrow>
        (\<exists>msg. create_configuration w platform es = (Some (ValueError msg), es)))
   \<and> (count_list (host_platform (host b)) CHR ''-'' \<noteq> 1 \<longrightarrow>
        (\<exists>e root'. create w b assemble root = (Some e, root')))
   \<and> (find_host_python w host_python = Inr h \<longrightarrow> read_lines w (host_makefile h) = Inr lines
        \<longrightarrow> makefile_platform lines = None \<longrightarrow> host_platform h = sys_platform w)"
proof -
  have "count_list platform CHR ''-'' = 1" if "fst (create_configuration w platform es) = None"
    using that create_configuration_fails [of platform w es] by fastforce
  moreover have "host_platform h = sys_platform w"
    if "find_host_python w host_python = Inr h" "read_lines w (host_makefile h) = Inr lines"
       "makefile_platform lines = None"
    using find_host_python_platform [OF that(1,2)] that(3) by simp
  ultimately show ?thesis
    using create_configuration_fails create_fails by blast
qed

theorem platform_needs_two_components_witness:
  "count_list ''linux-arm'' CHR ''-'' = 1
   \<and> (\<exists>msg. create_configuration no_platform_world ''linux'' [] = (Some (ValueError msg), []))
   \<and> (\<exists>e root'. create no_platform_world (sample_builder ''linux'') (\<lambda>root. (None, root)) None
                   = (Some e, root'))
   \<and> host_platform (sample_descriptor ''linux'') = sys_platform no_platform_world"
proof -
  have written: "fst (create_configuration (sample_world ''3.9.7'') ''linux-arm'' []) = None"
    by code_simp
  have dashes: "count_list ''linux'' CHR ''-'' \<noteq> 1"
    by simp
  have dashes': "count_list (host_platform (host (sample_builder ''linux''))) CHR ''-'' \<noteq> 1"
    by (simp add: sample_builder_def sample_descriptor_def)
  have located: "find_host_python no_platform_world sample_host = Inr (sample_descriptor ''linux'')"
    by code_simp
  have makefile: "read_lines no_platform_world (host_makefile (sample_descriptor ''linux''))
                    = Inr [''# Generated\<newline>'']"
    by code_simp
  have no_key: "makefile_platform [''# Generated\<newline>''] = None"
    by code_simp
  show ?thesis
    using platform_needs_two_components
            [where w = "sample_world ''3.9.7''" and platform = "''linux-arm''" and es = "[]"]
          platform_needs_two_components
            [where w = no_platform_world and platform = "''linux''" and es = "[]"
               and b = "sample_builder ''linux''" and assemble = "\<lambda>root. (None, root)"
               and root = None and host_python = sample_host
               and h = "sample_descriptor ''linux''" and lines = "[''# Generated\<newline>'']"]
          written dashes dashes' located makefile no_key
    by simp
qed

subsection \<open>Delegation script and environment descriptor\<close>


lemma env_lines_invalid:
  "\<not> valid_assignments evs \<Longrightarrow> \<exists>e. env_lines evs = Inl e"
  by (induction evs) (auto simp: valid_assignments_def split: sum.splits)






text \<open>
  Claim C8. Rewriting the home field keeps the number and order of the lines; each
  line whose first two words are \<^verbatim>\<open>home\<close> and \<^verbatim>\<open>=\<close> becomes the
  line that assigns the host's project base to \<^verbatim>\<open>home\<close>, and every other
  line is kept as it was.
\<close>

theorem home_line_rewritten:
  \<open>length (rewrite_cfg (host_project_base h) lines) = length lines
   \<and> (\<forall>i < length lines.
         rewrite_cfg (host_project_base h) lines ! i =
           (if take 2 (split_ws (lines ! i)) = [''home'', ''='']
            then ''home = '' @ host_project_base h @ ''\<newline>''
            else lines ! i))\<close>
  by (simp add: rewrite_cfg_def rewrite_home_line_def)

theorem home_line_rewritten_witness:
  "length (rewrite_cfg (host_project_base (sample_descriptor ''linux-arm''))
             [''home = /usr/bin\<newline>'', ''version = 3.9.7\<newline>'']) = 2
   \<and> rewrite_cfg (host_project_base (sample_descriptor ''linux-arm''))
        [''home = /usr/bin\<newline>'', ''version = 3.9.7\<newline>''] ! 0
       = ''home = /opt/host/bin\<newline>''
   \<and> rewrite_cfg (host_project_base (sample_descriptor ''linux-arm''))
        [''home = /usr/bin\<newline>'', ''version = 3.9.7\<newline>''] ! 1
       = ''version = 3.9.7\<newline>''"
proof -
  have tokens: "take 2 (split_ws ''home = /usr/bin\<newline>'') = [''home'', ''='']"
               "take 2 (split_ws ''version = 3.9.7\<newline>'') \<noteq> [''home'', ''='']"
    by code_simp+
  have base: "host_project_base (sample_descriptor ''linux-arm'') = ''/opt/host/bin''"
    by (simp add: sample_descriptor_def)
  note rewritten = home_line_rewritten
                     [of "sample_descriptor ''linux-arm''"
                         "[''home = /usr/bin\<newline>'', ''version = 3.9.7\<newline>'']"]
  from rewritten have len:
    "length (rewrite_cfg (host_project_base (sample_descriptor ''linux-arm''))
               [''home = /usr/bin\<newline>'', ''version = 3.9.7\<newline>'']) = 2"
    by simp
  from rewritten have first:
    "rewrite_cfg (host_project_base (sample_descriptor ''linux-arm''))
       [''home = /usr/bin\<newline>'', ''version = 3.9.7\<newline>''] ! 0
     = ''home = /opt/host/bin\<newline>''"
    using tokens(1) base by simp
  from rewritten have second:
    "rewrite_cfg (host_project_base (sample_descriptor ''linux-arm''))
       [''home = /usr/bin\<newline>'', ''version = 3.9.7\<newline>''] ! 1
     = ''version = 3.9.7\<newline>''"
    using tokens(2) by simp
  from len first second show ?thesis by blast
qed

end
